theory Spec2Isabelle
  imports Main "HOL-Library.Word"
begin

unbundle bit_operations_syntax

section \<open>Keypad backlight control (modules/keypad.c)\<close>

text \<open>
  A shallow embedding of the keypad module of the mode control entity: the two hardware
  backends, the backlight-level trigger, the enable/disable policy with its inactivity
  timer, the event triggers and the configuration loading of the module's init function.

  The module keeps its state in file-scope and function-scope \<open>static\<close> variables; the
  model collects them in one record that every function takes and returns. The values the
  module reads from its collaborators (product id, datapipes, submode) are fields of the
  same record, and so are the effects it has on them (files written, values pushed into
  the key backlight datapipe, GLib timeout sources).
\<close>

subsection \<open>Machine integers\<close>

text \<open>
  \<open>gint\<close> and \<open>guint\<close> are 32-bit. Both are modelled as \<open>32 word\<close>; a \<open>gint\<close> is read with
  \<open>sint\<close> and compared with the signed orders, a \<open>guint\<close> with \<open>unat\<close> and the unsigned
  ones. Unsigned arithmetic wraps as C defines it; signed arithmetic wraps too, which is
  what the target machines do where C leaves the result undefined.
\<close>

type_synonym gint = "32 word"
type_synonym guint = "32 word"

text \<open>GLib's \<open>ABS(a)\<close> is \<open>(((a) < 0) ? -(a) : (a))\<close>, here at type \<open>gint\<close>.\<close>

definition ABS :: "gint \<Rightarrow> gint" where
  "ABS a = (if a <s 0 then - a else a)"

subsection \<open>Double precision arithmetic\<close>

text \<open>
  The step speed of the Lysti backend is computed in \<open>double\<close>. The model is IEEE 754
  binary64 with round-to-nearest, ties-to-even, for the non-negative numbers of the normal
  range, which is where the operands of this program lie (0, and between \<open>2\<^sup>-\<^sup>9\<close>
  and \<open>2\<^sup>3\<^sup>4\<close>). A double is a pair \<open>(m, e)\<close> of integers that stands for \<open>m * 2\<^sup>e\<close>.

  \<open>b64_ratio k n d x\<close> rounds \<open>n / d * 2\<^sup>x\<close> to a mantissa of 53 bits: the quotient is
  scaled until it lies in \<open>[2\<^sup>5\<^sup>2, 2\<^sup>5\<^sup>3)\<close>, then rounded to the nearest integer, a tie
  going to the even one. \<open>k\<close> bounds the number of scaling steps.
\<close>

type_synonym double = "int \<times> int"

fun b64_ratio :: "nat \<Rightarrow> int \<Rightarrow> int \<Rightarrow> int \<Rightarrow> double" where
  "b64_ratio k n d x =
     (if n = 0 then (0, 0)
      else if k \<noteq> 0 \<and> d * 2 ^ 53 \<le> n then b64_ratio (k - 1) n (2 * d) (x + 1)
      else if k \<noteq> 0 \<and> n < d * 2 ^ 52 then b64_ratio (k - 1) (2 * n) d (x - 1)
      else (let q = n div d; r = n mod d
            in if 2 * r < d then (q, x)
               else if d < 2 * r then (q + 1, x)
               else if even q then (q, x) else (q + 1, x)))"

declare b64_ratio.simps [simp del]

text \<open>Division of two doubles, the conversion of a \<open>guint\<close> to a double (exact, since
  it has at most 32 bits), and the conversion of a double to \<open>gint\<close>, which truncates.\<close>

definition b64_div :: "double \<Rightarrow> double \<Rightarrow> double" where
  "b64_div a b = b64_ratio 2200 (fst a) (fst b) (snd a - snd b)"

definition guint_to_double :: "guint \<Rightarrow> double" where
  "guint_to_double w = (uint w, 0)"

definition double_to_gint :: "double \<Rightarrow> gint" where
  "double_to_gint a =
     word_of_int (if 0 \<le> snd a then fst a * 2 ^ nat (snd a)
                  else fst a div 2 ^ nat (- snd a))"

text \<open>The literals \<open>0.49\<close> (the double nearest to 49/100) and \<open>1000\<close>.\<close>

definition double_0_49 :: double where
  "double_0_49 = b64_ratio 2200 49 100 0"

definition double_1000 :: double where
  "double_1000 = (1000, 0)"

subsection \<open>Types of the collaborators\<close>

text \<open>
  The enumerations of \<open>mce.h\<close> and \<open>mce-hal.h\<close>, which are not among the sources here.
  Each has the enumerators \<open>keypad.c\<close> names; where the module only tests for some values,
  the remaining ones are kept under one constructor that carries the C value.
\<close>

datatype product_id_t =
  PRODUCT_RM690 | PRODUCT_RM680 | PRODUCT_RX51 | PRODUCT_RX48 | PRODUCT_RX44
| PRODUCT_OTHER int

datatype cover_state_t = COVER_OPEN | COVER_CLOSED | COVER_OTHER int

datatype system_state_t = MCE_STATE_USER | MCE_STATE_OTHER int

datatype alarm_ui_state_t =
  MCE_ALARM_UI_VISIBLE_INT32 | MCE_ALARM_UI_RINGING_INT32 | MCE_ALARM_UI_OTHER int

datatype display_state_t =
  MCE_DISPLAY_UNDEF | MCE_DISPLAY_OFF | MCE_DISPLAY_LPM_OFF | MCE_DISPLAY_LPM_ON
| MCE_DISPLAY_DIM | MCE_DISPLAY_ON | MCE_DISPLAY_OTHER int

text \<open>
  The constants of \<open>keypad.h\<close>, \<open>mce.h\<close> and the LED headers that the module uses. Their
  values are not in the sources, so every function takes them as a parameter \<open>H\<close>.
\<close>

record keypad_h =
  DEFAULT_KEY_BACKLIGHT_LEVEL :: gint
  DEFAULT_KEY_BACKLIGHT_TIMEOUT :: gint
  DEFAULT_KEY_BACKLIGHT_FADE_IN_TIME :: gint
  DEFAULT_KEY_BACKLIGHT_FADE_OUT_TIME :: gint
  MAXIMUM_LYSTI_BACKLIGHT_LED_CURRENT :: guint
  MCE_LYSTI_KB_BACKLIGHT_MASK_RM680 :: guint
  MCE_LYSTI_KB_BACKLIGHT_MASK_RX51 :: guint
  MCE_TKLOCK_SUBMODE :: gint
  MCE_LED_DISABLED_MODE :: string
  MCE_LED_LOAD_MODE :: string
  MCE_LED_RUN_MODE :: string

text \<open>
  The files the module writes, named after the variable or macro that holds the path, and
  what is written: a string, a number printed by \<open>mce_write_number_string_to_file\<close>, or
  the string \<open>bin_to_string\<close> makes of the channel mask.
\<close>

datatype led_file =
  engine3_mode_path | engine3_load_path | engine3_leds_path
| led_brightness_kb_path nat | led_current_kb_path nat
| MCE_KEYPAD_BACKLIGHT_FADETIME_SYS_PATH | MCE_KEYBOARD_BACKLIGHT_FADETIME_SYS_PATH

datatype written = Str string | Num guint | Bin_to_string guint

subsection \<open>The state\<close>

text \<open>
  The first group of fields are the module's variables: the file-scope ones, then the
  function-scope statics \<open>pattern\<close> and \<open>old_brightness\<close> (of
  \<open>set_lysti_backlight_brightness\<close>), \<open>cached_brightness\<close> (of \<open>set_backlight_brightness\<close>)
  and \<open>old_display_state\<close> (of \<open>display_state_trigger\<close>).

  The second group is what the module reads from the daemon: the product id, the cached
  values of the datapipes and the submode.

  The third group is the module's effect on the outside: the GLib timeout sources that
  exist (id and interval in seconds; \<open>glib_last_id\<close> is the last id GLib gave out), the
  file writes in the order they were made, and the values the module pushed into the key
  backlight datapipe. A timeout id is an opaque handle and is a natural number here.
\<close>

record keypad_state =
  key_backlight_timeout_cb_id :: nat
  key_backlight_timeout :: gint
  key_backlight_fade_in_time :: gint
  key_backlight_fade_out_time :: gint
  key_backlight_is_enabled :: bool
  key_backlight_mask :: guint
  pattern :: string
  old_brightness :: gint
  cached_brightness :: gint
  old_display_state :: display_state_t
  product_id :: product_id_t
  keyboard_slide_pipe :: cover_state_t
  system_state_pipe :: system_state_t
  alarm_ui_state_pipe :: alarm_ui_state_t
  key_backlight_pipe :: gint
  submode :: gint
  glib_timeouts :: "(nat \<times> gint) list"
  glib_last_id :: nat
  hw_writes :: "(led_file \<times> written) list"
  pipe_pushes :: "gint list"

text \<open>The initialisers of the module's variables.\<close>

definition initial_state ::
  "keypad_h \<Rightarrow> product_id_t \<Rightarrow> cover_state_t \<Rightarrow> system_state_t \<Rightarrow> alarm_ui_state_t
   \<Rightarrow> gint \<Rightarrow> gint \<Rightarrow> keypad_state" where
  "initial_state H pid slide sys alarm level sub =
     \<lparr> key_backlight_timeout_cb_id = 0,
       key_backlight_timeout = DEFAULT_KEY_BACKLIGHT_TIMEOUT H,
       key_backlight_fade_in_time = DEFAULT_KEY_BACKLIGHT_FADE_IN_TIME H,
       key_backlight_fade_out_time = DEFAULT_KEY_BACKLIGHT_FADE_OUT_TIME H,
       key_backlight_is_enabled = False,
       key_backlight_mask = 0,
       pattern = ''9d8040000000c000'',
       old_brightness = 0,
       cached_brightness = - 1,
       old_display_state = MCE_DISPLAY_UNDEF,
       product_id = pid,
       keyboard_slide_pipe = slide,
       system_state_pipe = sys,
       alarm_ui_state_pipe = alarm,
       key_backlight_pipe = level,
       submode = sub,
       glib_timeouts = [],
       glib_last_id = 0,
       hw_writes = [],
       pipe_pushes = [] \<rparr>"

subsection \<open>File writes\<close>

text \<open>
  Modelled from the spec: \<open>mce_write_string_to_file\<close> and
  \<open>mce_write_number_string_to_file\<close> of \<open>mce-io.c\<close> are not among the sources. Each write is
  independent and best-effort, and the module discards the result, so a write is recorded
  and the module goes on.
\<close>

definition mce_write_string_to_file :: "led_file \<Rightarrow> string \<Rightarrow> keypad_state \<Rightarrow> keypad_state" where
  "mce_write_string_to_file f str s = s\<lparr>hw_writes := hw_writes s @ [(f, Str str)]\<rparr>"

definition mce_write_number_string_to_file ::
  "led_file \<Rightarrow> guint \<Rightarrow> keypad_state \<Rightarrow> keypad_state" where
  "mce_write_number_string_to_file f n s = s\<lparr>hw_writes := hw_writes s @ [(f, Num n)]\<rparr>"

definition write_bin_to_string :: "led_file \<Rightarrow> guint \<Rightarrow> keypad_state \<Rightarrow> keypad_state" where
  "write_bin_to_string f m s = s\<lparr>hw_writes := hw_writes s @ [(f, Bin_to_string m)]\<rparr>"

text \<open>A sequence of writes, made in the order of the list.\<close>

definition in_order :: "(keypad_state \<Rightarrow> keypad_state) list \<Rightarrow> keypad_state \<Rightarrow> keypad_state" where
  "in_order ws s = fold (\<lambda>w. w) ws s"

subsection \<open>The Lysti backend\<close>

text \<open>The table \<open>convert\<close> and the two hexadecimal digits of the low byte of a value,
  \<open>convert[(v & 0xf0) >> 4]\<close> and \<open>convert[v & 0xf]\<close>. The index is below 16 in both.\<close>

definition convert :: string where
  "convert = ''0123456789abcdef''"

definition hex_hi :: "32 word \<Rightarrow> char" where
  "hex_hi v = convert ! unat (drop_bit 4 (v AND 0xf0))"

definition hex_lo :: "32 word \<Rightarrow> char" where
  "hex_lo v = convert ! unat (v AND 0xf)"

text \<open>
  The step speed, in the three stages of the source: the value computed from the fade
  time and the number of steps (\<open>fadetime * 1000\<close> is an unsigned product and wraps, the
  division by \<open>ABS(steps)\<close> is unsigned, the two further divisions are in \<open>double\<close>, and
  the assignment to \<open>gint stepspeed\<close> truncates); the sanity check; and the encoding of
  the direction in the low bit.
\<close>

definition stepspeed_computed :: "guint \<Rightarrow> gint \<Rightarrow> gint" where
  "stepspeed_computed fadetime steps =
     (if steps = 0 then 1
      else double_to_gint
             (b64_div (b64_div (guint_to_double ((fadetime * 1000) div ABS steps))
                               double_0_49)
                      double_1000))"

definition stepspeed_checked :: "gint \<Rightarrow> gint" where
  "stepspeed_checked stepspeed =
     (if stepspeed <s 1 then 1 else if 31 <s stepspeed then 31 else stepspeed)"

definition stepspeed_encoded :: "guint \<Rightarrow> gint \<Rightarrow> gint" where
  "stepspeed_encoded fadetime steps =
     stepspeed_checked (stepspeed_computed fadetime steps) * 2
       + (if 0 <s steps then 0 else 1)"

text \<open>The micro-program: characters 6 to 11 of \<open>pattern\<close> are overwritten.\<close>

definition lysti_pattern :: "string \<Rightarrow> gint \<Rightarrow> guint \<Rightarrow> guint \<Rightarrow> string" where
  "lysti_pattern pat old fadetime brightness =
     (let steps = brightness - old
      in if fadetime = 0 \<or> steps = 0
         then pat[6 := hex_hi brightness, 7 := hex_lo brightness,
                  8 := CHR ''0'', 9 := CHR ''0'', 10 := CHR ''0'', 11 := CHR ''0'']
         else (let stepspeed = stepspeed_encoded fadetime steps
               in pat[6 := hex_hi old, 7 := hex_lo old,
                      8 := hex_hi stepspeed, 9 := hex_lo stepspeed,
                      10 := hex_hi (ABS steps), 11 := hex_lo (ABS steps)]))"

definition set_lysti_backlight_brightness ::
  "keypad_h \<Rightarrow> guint \<Rightarrow> guint \<Rightarrow> keypad_state \<Rightarrow> keypad_state" where
  "set_lysti_backlight_brightness H fadetime brightness s =
     (if old_brightness s = 0 \<and> key_backlight_timeout_cb_id s = 0 then s
      else
        (let pat = lysti_pattern (pattern s) (old_brightness s) fadetime brightness
         in in_order
              [mce_write_string_to_file engine3_mode_path (MCE_LED_DISABLED_MODE H),
               mce_write_number_string_to_file (led_brightness_kb_path 0) 0,
               mce_write_number_string_to_file (led_brightness_kb_path 1) 0,
               mce_write_number_string_to_file (led_brightness_kb_path 2) 0,
               mce_write_number_string_to_file (led_brightness_kb_path 3) 0,
               mce_write_number_string_to_file (led_brightness_kb_path 4) 0,
               mce_write_number_string_to_file (led_brightness_kb_path 5) 0,
               mce_write_number_string_to_file (led_current_kb_path 0)
                 (MAXIMUM_LYSTI_BACKLIGHT_LED_CURRENT H),
               mce_write_number_string_to_file (led_current_kb_path 1)
                 (MAXIMUM_LYSTI_BACKLIGHT_LED_CURRENT H),
               mce_write_number_string_to_file (led_current_kb_path 2)
                 (MAXIMUM_LYSTI_BACKLIGHT_LED_CURRENT H),
               mce_write_number_string_to_file (led_current_kb_path 3)
                 (MAXIMUM_LYSTI_BACKLIGHT_LED_CURRENT H),
               mce_write_number_string_to_file (led_current_kb_path 4)
                 (MAXIMUM_LYSTI_BACKLIGHT_LED_CURRENT H),
               mce_write_number_string_to_file (led_current_kb_path 5)
                 (MAXIMUM_LYSTI_BACKLIGHT_LED_CURRENT H),
               mce_write_string_to_file engine3_mode_path (MCE_LED_LOAD_MODE H),
               write_bin_to_string engine3_leds_path (key_backlight_mask s),
               mce_write_string_to_file engine3_load_path pat,
               mce_write_string_to_file engine3_mode_path (MCE_LED_RUN_MODE H)]
              (s\<lparr>pattern := pat, old_brightness := brightness\<rparr>)))"

subsection \<open>The N810 backend\<close>

definition set_n810_backlight_brightness ::
  "guint \<Rightarrow> guint \<Rightarrow> keypad_state \<Rightarrow> keypad_state" where
  "set_n810_backlight_brightness fadetime brightness s =
     in_order
       [mce_write_number_string_to_file MCE_KEYPAD_BACKLIGHT_FADETIME_SYS_PATH
          (if brightness = 0 then fadetime else 0),
        mce_write_number_string_to_file MCE_KEYBOARD_BACKLIGHT_FADETIME_SYS_PATH
          (if brightness = 0 then fadetime else 0),
        mce_write_number_string_to_file (led_brightness_kb_path 0) brightness,
        mce_write_number_string_to_file (led_brightness_kb_path 1) brightness]
       s"

subsection \<open>The backlight-level trigger\<close>

definition set_backlight_brightness :: "keypad_h \<Rightarrow> gint \<Rightarrow> keypad_state \<Rightarrow> keypad_state" where
  "set_backlight_brightness H new_brightness s =
     (let fadetime = (if new_brightness = 0 then key_backlight_fade_out_time s
                      else key_backlight_fade_in_time s)
      in if new_brightness = cached_brightness s \<or> new_brightness = - 1 then s
         else
           (let s1 = s\<lparr>cached_brightness := new_brightness,
                       key_backlight_is_enabled := (new_brightness \<noteq> 0)\<rparr>
            in case product_id s1 of
                 PRODUCT_RM690 \<Rightarrow> set_lysti_backlight_brightness H fadetime new_brightness s1
               | PRODUCT_RM680 \<Rightarrow> set_lysti_backlight_brightness H fadetime new_brightness s1
               | PRODUCT_RX51 \<Rightarrow> set_lysti_backlight_brightness H fadetime new_brightness s1
               | PRODUCT_RX48 \<Rightarrow> set_n810_backlight_brightness fadetime new_brightness s1
               | PRODUCT_RX44 \<Rightarrow> set_n810_backlight_brightness fadetime new_brightness s1
               | PRODUCT_OTHER c \<Rightarrow> s1))"

text \<open>
  Modelled from the spec: \<open>execute_datapipe\<close> of \<open>datapipe.c\<close> is not among the sources.
  The module pushes a level through the level channel with \<open>USE_INDATA\<close> and
  \<open>CACHE_INDATA\<close>: the level becomes the channel's current value and is delivered to the
  backlight-level trigger. The push is recorded in \<open>pipe_pushes\<close>.
\<close>

definition execute_datapipe_key_backlight ::
  "keypad_h \<Rightarrow> gint \<Rightarrow> keypad_state \<Rightarrow> keypad_state" where
  "execute_datapipe_key_backlight H level s =
     set_backlight_brightness H level
       (s\<lparr>key_backlight_pipe := level, pipe_pushes := pipe_pushes s @ [level]\<rparr>)"

subsection \<open>The inactivity timer\<close>

text \<open>
  GLib's timeout sources, as far as the module uses them: \<open>g_timeout_add_seconds\<close> makes
  a source and returns its id, which is never 0, and \<open>g_source_remove\<close> destroys the source
  with the given id.
\<close>

definition g_source_remove :: "nat \<Rightarrow> keypad_state \<Rightarrow> keypad_state" where
  "g_source_remove i s = s\<lparr>glib_timeouts := filter (\<lambda>t. fst t \<noteq> i) (glib_timeouts s)\<rparr>"

definition g_timeout_add_seconds :: "gint \<Rightarrow> keypad_state \<Rightarrow> nat \<times> keypad_state" where
  "g_timeout_add_seconds interval s =
     (let i = Suc (glib_last_id s)
      in (i, s\<lparr>glib_timeouts := glib_timeouts s @ [(i, interval)], glib_last_id := i\<rparr>))"

definition cancel_key_backlight_timeout :: "keypad_state \<Rightarrow> keypad_state" where
  "cancel_key_backlight_timeout s =
     (if key_backlight_timeout_cb_id s \<noteq> 0
      then (g_source_remove (key_backlight_timeout_cb_id s) s)\<lparr>key_backlight_timeout_cb_id := 0\<rparr>
      else s)"

definition setup_key_backlight_timeout :: "keypad_state \<Rightarrow> keypad_state" where
  "setup_key_backlight_timeout s =
     (let s1 = cancel_key_backlight_timeout s
      in case g_timeout_add_seconds (key_backlight_timeout s1) s1 of
           (i, s2) \<Rightarrow> s2\<lparr>key_backlight_timeout_cb_id := i\<rparr>)"

subsection \<open>Enabling and disabling\<close>

definition disable_key_backlight :: "keypad_h \<Rightarrow> keypad_state \<Rightarrow> keypad_state" where
  "disable_key_backlight H s =
     execute_datapipe_key_backlight H 0 (cancel_key_backlight_timeout s)"

text \<open>The timeout callback: the new state and the value returned to GLib.\<close>

definition key_backlight_timeout_cb :: "keypad_h \<Rightarrow> keypad_state \<Rightarrow> keypad_state \<times> bool" where
  "key_backlight_timeout_cb H s =
     (disable_key_backlight H (s\<lparr>key_backlight_timeout_cb_id := 0\<rparr>), False)"

definition enable_key_backlight :: "keypad_h \<Rightarrow> keypad_state \<Rightarrow> keypad_state" where
  "enable_key_backlight H s =
     (let s1 = cancel_key_backlight_timeout s
      in if keyboard_slide_pipe s1 \<noteq> COVER_OPEN then s1
         else
           (let s2 = setup_key_backlight_timeout s1
            in if key_backlight_pipe s2 = 0
               then execute_datapipe_key_backlight H (DEFAULT_KEY_BACKLIGHT_LEVEL H) s2
               else s2))"

definition enable_key_backlight_policy :: "keypad_h \<Rightarrow> keypad_state \<Rightarrow> keypad_state" where
  "enable_key_backlight_policy H s =
     (let kbd_slide_state = keyboard_slide_pipe s;
          system_state = system_state_pipe s;
          alarm_ui_state = alarm_ui_state_pipe s
      in if kbd_slide_state \<noteq> COVER_OPEN then s
         else if system_state = MCE_STATE_USER
                 \<or> (alarm_ui_state = MCE_ALARM_UI_VISIBLE_INT32
                     \<or> alarm_ui_state = MCE_ALARM_UI_RINGING_INT32)
         then (if key_backlight_timeout_cb_id s \<noteq> 0
               then setup_key_backlight_timeout s
               else enable_key_backlight H s)
         else s)"

subsection \<open>The status query\<close>

text \<open>
  \<open>send_key_backlight_state\<close> replies with \<open>key_backlight_is_enabled\<close>. Building and sending
  the reply is D-Bus's work: \<open>append_ok\<close> and \<open>send_ok\<close> say whether
  \<open>dbus_message_append_args\<close> and \<open>dbus_send_message\<close> succeed. The result is the status
  and the boolean of the message handed to \<open>dbus_send_message\<close>, if one was.
\<close>

definition send_key_backlight_state :: "bool \<Rightarrow> bool \<Rightarrow> keypad_state \<Rightarrow> bool \<times> bool option" where
  "send_key_backlight_state append_ok send_ok s =
     (let state = key_backlight_is_enabled s
      in if \<not> append_ok then (False, None) else (send_ok, Some state))"

definition key_backlight_state_get_dbus_cb :: "bool \<Rightarrow> bool \<Rightarrow> keypad_state \<Rightarrow> bool" where
  "key_backlight_state_get_dbus_cb append_ok send_ok s =
     (if fst (send_key_backlight_state append_ok send_ok s) = False then False else True)"

subsection \<open>The event triggers\<close>

definition device_inactive_trigger :: "keypad_h \<Rightarrow> bool \<Rightarrow> keypad_state \<Rightarrow> keypad_state" where
  "device_inactive_trigger H device_inactive s =
     (if device_inactive = False then enable_key_backlight_policy H s else s)"

definition keyboard_slide_trigger :: "keypad_h \<Rightarrow> cover_state_t \<Rightarrow> keypad_state \<Rightarrow> keypad_state" where
  "keyboard_slide_trigger H data s =
     (if data = COVER_OPEN \<and> (submode s AND MCE_TKLOCK_SUBMODE H) = 0
      then enable_key_backlight_policy H s
      else disable_key_backlight H s)"

definition display_state_trigger :: "keypad_h \<Rightarrow> display_state_t \<Rightarrow> keypad_state \<Rightarrow> keypad_state" where
  "display_state_trigger H display_state s =
     (if old_display_state s = display_state then s
      else
        (let s1 = (case display_state of
                     MCE_DISPLAY_OFF \<Rightarrow> disable_key_backlight H s
                   | MCE_DISPLAY_LPM_OFF \<Rightarrow> disable_key_backlight H s
                   | MCE_DISPLAY_LPM_ON \<Rightarrow> disable_key_backlight H s
                   | MCE_DISPLAY_DIM \<Rightarrow> disable_key_backlight H s
                   | MCE_DISPLAY_ON \<Rightarrow>
                       (if old_display_state s \<noteq> MCE_DISPLAY_ON
                        then enable_key_backlight_policy H s else s)
                   | MCE_DISPLAY_UNDEF \<Rightarrow> s
                   | MCE_DISPLAY_OTHER c \<Rightarrow> s)
         in s1\<lparr>old_display_state := display_state\<rparr>))"

definition system_state_trigger :: "keypad_h \<Rightarrow> system_state_t \<Rightarrow> keypad_state \<Rightarrow> keypad_state" where
  "system_state_trigger H system_state s =
     (if system_state \<noteq> MCE_STATE_USER then disable_key_backlight H s else s)"

text \<open>The requests the level trigger receives, one after the other.\<close>

fun level_requests :: "keypad_h \<Rightarrow> gint list \<Rightarrow> keypad_state \<Rightarrow> keypad_state" where
  "level_requests H [] s = s"
| "level_requests H (v # vs) s = level_requests H vs (set_backlight_brightness H v s)"

text \<open>The display states the display trigger receives, one after the other.\<close>

fun display_events :: "keypad_h \<Rightarrow> display_state_t list \<Rightarrow> keypad_state \<Rightarrow> keypad_state" where
  "display_events H [] s = s"
| "display_events H (d # ds) s = display_events H ds (display_state_trigger H d s)"

subsection \<open>Initialisation\<close>

text \<open>C's \<open>%\<close> on \<open>gint\<close>: the remainder of the division that truncates towards zero.\<close>

definition gint_rem :: "gint \<Rightarrow> gint \<Rightarrow> gint" where
  "gint_rem a b = word_of_int (sgn (sint a) * (\<bar>sint a\<bar> mod \<bar>sint b\<bar>))"

text \<open>
  Modelled from the spec: \<open>mce_conf_get_int\<close> of \<open>mce-conf.c\<close> is not among the sources. It
  gives the configured value of a key, and the default passed to it when the key cannot be
  read. The configuration is the three values the module asks for, each there or not.
\<close>

record keypad_conf =
  MCE_CONF_KEY_BACKLIGHT_TIMEOUT :: "gint option"
  MCE_CONF_KEY_BACKLIGHT_FADE_IN_TIME :: "gint option"
  MCE_CONF_KEY_BACKLIGHT_FADE_OUT_TIME :: "gint option"

definition mce_conf_get_int :: "gint option \<Rightarrow> gint \<Rightarrow> gint" where
  "mce_conf_get_int configured default_value =
     (case configured of None \<Rightarrow> default_value | Some v \<Rightarrow> v)"

text \<open>The check \<open>g_module_check_init\<close> makes on each of the two fade times.\<close>

definition fade_time_check :: "gint \<Rightarrow> gint \<Rightarrow> gint" where
  "fade_time_check default_value t =
     (if gint_rem t 125 \<noteq> 0 \<and> 1000 <s t then default_value else t)"

definition setup_key_backlight :: "keypad_h \<Rightarrow> keypad_state \<Rightarrow> keypad_state" where
  "setup_key_backlight H s =
     (case product_id s of
        PRODUCT_RM690 \<Rightarrow> s\<lparr>key_backlight_mask := MCE_LYSTI_KB_BACKLIGHT_MASK_RM680 H\<rparr>
      | PRODUCT_RM680 \<Rightarrow> s\<lparr>key_backlight_mask := MCE_LYSTI_KB_BACKLIGHT_MASK_RM680 H\<rparr>
      | PRODUCT_RX51 \<Rightarrow> s\<lparr>key_backlight_mask := MCE_LYSTI_KB_BACKLIGHT_MASK_RX51 H\<rparr>
      | PRODUCT_RX48 \<Rightarrow> s
      | PRODUCT_RX44 \<Rightarrow> s
      | PRODUCT_OTHER c \<Rightarrow> s)"

text \<open>
  \<open>handler_ok\<close> says whether \<open>mce_dbus_handler_add\<close> returned a handler; when it did
  not, the function returns before \<open>setup_key_backlight\<close>. Appending the triggers to the
  datapipes leaves the module's variables alone.
\<close>

definition g_module_check_init ::
  "keypad_h \<Rightarrow> keypad_conf \<Rightarrow> bool \<Rightarrow> keypad_state \<Rightarrow> keypad_state" where
  "g_module_check_init H conf handler_ok s =
     (let s1 = s\<lparr>key_backlight_timeout :=
                   mce_conf_get_int (MCE_CONF_KEY_BACKLIGHT_TIMEOUT conf)
                     (DEFAULT_KEY_BACKLIGHT_TIMEOUT H)\<rparr>;
          s2 = s1\<lparr>key_backlight_fade_in_time :=
                    fade_time_check (DEFAULT_KEY_BACKLIGHT_FADE_IN_TIME H)
                      (mce_conf_get_int (MCE_CONF_KEY_BACKLIGHT_FADE_IN_TIME conf)
                         (DEFAULT_KEY_BACKLIGHT_FADE_IN_TIME H))\<rparr>;
          s3 = s2\<lparr>key_backlight_fade_out_time :=
                    fade_time_check (DEFAULT_KEY_BACKLIGHT_FADE_OUT_TIME H)
                      (mce_conf_get_int (MCE_CONF_KEY_BACKLIGHT_FADE_OUT_TIME conf)
                         (DEFAULT_KEY_BACKLIGHT_FADE_OUT_TIME H))\<rparr>
      in if \<not> handler_ok then s3 else setup_key_backlight H s3)"

text \<open>Unloading the module removes the pending timer; closing the files and freeing the
  paths leaves the module's variables alone.\<close>

definition g_module_unload :: "keypad_state \<Rightarrow> keypad_state" where
  "g_module_unload s = cancel_key_backlight_timeout s"

subsection \<open>The spec's formula for the fade step rate\<close>

text \<open>
  The spec gives the rate as
  \<open>clamp(round((fade_ms*1000 / |delta|) / 0.49 / 1000), 1, 31)\<close>. This definition follows
  those words, for comparison with \<open>stepspeed_checked\<close> and \<open>stepspeed_computed\<close>, which
  follow the source: the quotient is \<open>fade_ms * 100 / (49 * |delta|)\<close>, and \<open>round\<close> takes it
  to the nearest integer.
\<close>

definition spec_fade_step_rate :: "int \<Rightarrow> int \<Rightarrow> int" where
  "spec_fade_step_rate fade_ms delta =
     max 1 (min 31 ((2 * (fade_ms * 100) + 49 * \<bar>delta\<bar>) div (2 * (49 * \<bar>delta\<bar>))))"

subsection \<open>Concrete inputs\<close>

text \<open>
  A set of values for the header constants and a state of the module right after its
  variables are initialised, on a device with the Lysti backend, with the slide open, the
  system in the user state, no alarm, level 0 in the level channel and no submode bit set.
\<close>

definition example_h :: keypad_h where
  "example_h =
     \<lparr> DEFAULT_KEY_BACKLIGHT_LEVEL = 255,
       DEFAULT_KEY_BACKLIGHT_TIMEOUT = 30,
       DEFAULT_KEY_BACKLIGHT_FADE_IN_TIME = 250,
       DEFAULT_KEY_BACKLIGHT_FADE_OUT_TIME = 1000,
       MAXIMUM_LYSTI_BACKLIGHT_LED_CURRENT = 50,
       MCE_LYSTI_KB_BACKLIGHT_MASK_RM680 = 63,
       MCE_LYSTI_KB_BACKLIGHT_MASK_RX51 = 399,
       MCE_TKLOCK_SUBMODE = 8,
       MCE_LED_DISABLED_MODE = ''disabled'',
       MCE_LED_LOAD_MODE = ''load'',
       MCE_LED_RUN_MODE = ''run'' \<rparr>"

definition example_state :: keypad_state where
  "example_state =
     initial_state example_h PRODUCT_RX51 COVER_OPEN MCE_STATE_USER (MCE_ALARM_UI_OTHER 0) 0 0"

text \<open>The products whose level changes go to the Lysti backend.\<close>

definition lysti_product :: "product_id_t \<Rightarrow> bool" where
  "lysti_product p = (p = PRODUCT_RM690 \<or> p = PRODUCT_RM680 \<or> p = PRODUCT_RX51)"

text \<open>The timer handle and GLib's sources agree: the only source is the pending timer.\<close>

definition timer_consistent :: "keypad_state \<Rightarrow> bool" where
  "timer_consistent s =
     (map fst (glib_timeouts s) =
        (if key_backlight_timeout_cb_id s = 0 then [] else [key_backlight_timeout_cb_id s]))"

text \<open>The condition under which \<open>enable_key_backlight_policy\<close> goes on to act.\<close>

definition policy_allows :: "keypad_state \<Rightarrow> bool" where
  "policy_allows s =
     (keyboard_slide_pipe s = COVER_OPEN
      \<and> (system_state_pipe s = MCE_STATE_USER
           \<or> alarm_ui_state_pipe s = MCE_ALARM_UI_VISIBLE_INT32
           \<or> alarm_ui_state_pipe s = MCE_ALARM_UI_RINGING_INT32))"

text \<open>
  The state with the backlight on and the timer pending, as the first enabling leaves it
  (the file writes left out), and the same with the display seen on.
\<close>

definition lit_state :: keypad_state where
  "lit_state =
     example_state\<lparr>key_backlight_timeout_cb_id := 1, glib_timeouts := [(1, 30)],
                   glib_last_id := 1, key_backlight_pipe := 255, pipe_pushes := [255],
                   cached_brightness := 255, old_brightness := 255,
                   key_backlight_is_enabled := True\<rparr>"

definition lit_on_state :: keypad_state where
  "lit_on_state = lit_state\<lparr>old_display_state := MCE_DISPLAY_ON\<rparr>"

text \<open>A configuration with a fade-in time of 300 ms and a fade-out time of 1001 ms, and no
  timeout configured.\<close>

definition example_conf :: keypad_conf where
  "example_conf =
     \<lparr> MCE_CONF_KEY_BACKLIGHT_TIMEOUT = None,
       MCE_CONF_KEY_BACKLIGHT_FADE_IN_TIME = Some 300,
       MCE_CONF_KEY_BACKLIGHT_FADE_OUT_TIME = Some 1001 \<rparr>"

text \<open>A state in which the Lysti backend's previous brightness is 64.\<close>

definition level64_state :: keypad_state where
  "level64_state = lit_state\<lparr>old_brightness := 64\<rparr>"

section \<open>Properties\<close>

subsection \<open>What the backends and the level trigger leave alone\<close>

lemmas write_defs =
  in_order_def mce_write_string_to_file_def mce_write_number_string_to_file_def
  write_bin_to_string_def

lemma set_lysti_ignored:
  "old_brightness s = 0 \<Longrightarrow> key_backlight_timeout_cb_id s = 0 \<Longrightarrow>
   set_lysti_backlight_brightness H fadetime brightness s = s"
  by (simp add: set_lysti_backlight_brightness_def)

lemma set_lysti_frame [simp]:
  "cached_brightness (set_lysti_backlight_brightness H fadetime brightness s) = cached_brightness s"
  "key_backlight_is_enabled (set_lysti_backlight_brightness H fadetime brightness s)
     = key_backlight_is_enabled s"
  "key_backlight_timeout_cb_id (set_lysti_backlight_brightness H fadetime brightness s)
     = key_backlight_timeout_cb_id s"
  "glib_timeouts (set_lysti_backlight_brightness H fadetime brightness s) = glib_timeouts s"
  "glib_last_id (set_lysti_backlight_brightness H fadetime brightness s) = glib_last_id s"
  "pipe_pushes (set_lysti_backlight_brightness H fadetime brightness s) = pipe_pushes s"
  "key_backlight_pipe (set_lysti_backlight_brightness H fadetime brightness s)
     = key_backlight_pipe s"
  "product_id (set_lysti_backlight_brightness H fadetime brightness s) = product_id s"
  by (simp_all add: set_lysti_backlight_brightness_def write_defs Let_def)

lemma set_n810_frame [simp]:
  "cached_brightness (set_n810_backlight_brightness fadetime brightness s) = cached_brightness s"
  "key_backlight_is_enabled (set_n810_backlight_brightness fadetime brightness s)
     = key_backlight_is_enabled s"
  "key_backlight_timeout_cb_id (set_n810_backlight_brightness fadetime brightness s)
     = key_backlight_timeout_cb_id s"
  "glib_timeouts (set_n810_backlight_brightness fadetime brightness s) = glib_timeouts s"
  "glib_last_id (set_n810_backlight_brightness fadetime brightness s) = glib_last_id s"
  "pipe_pushes (set_n810_backlight_brightness fadetime brightness s) = pipe_pushes s"
  "key_backlight_pipe (set_n810_backlight_brightness fadetime brightness s)
     = key_backlight_pipe s"
  "product_id (set_n810_backlight_brightness fadetime brightness s) = product_id s"
  by (simp_all add: set_n810_backlight_brightness_def write_defs)

lemma set_backlight_brightness_same:
  "new_brightness = cached_brightness s \<or> new_brightness = - 1 \<Longrightarrow>
   set_backlight_brightness H new_brightness s = s"
  by (auto simp add: set_backlight_brightness_def)

lemma set_backlight_brightness_cached:
  "new_brightness \<noteq> - 1 \<Longrightarrow>
   cached_brightness (set_backlight_brightness H new_brightness s) = new_brightness"
  by (simp add: set_backlight_brightness_def Let_def split: product_id_t.split)

lemma set_backlight_brightness_enabled:
  "new_brightness \<noteq> cached_brightness s \<Longrightarrow> new_brightness \<noteq> - 1 \<Longrightarrow>
   key_backlight_is_enabled (set_backlight_brightness H new_brightness s)
     = (new_brightness \<noteq> 0)"
  by (simp add: set_backlight_brightness_def Let_def split: product_id_t.split)

lemma set_backlight_brightness_frame [simp]:
  "key_backlight_timeout_cb_id (set_backlight_brightness H v s) = key_backlight_timeout_cb_id s"
  "glib_timeouts (set_backlight_brightness H v s) = glib_timeouts s"
  "glib_last_id (set_backlight_brightness H v s) = glib_last_id s"
  "pipe_pushes (set_backlight_brightness H v s) = pipe_pushes s"
  "key_backlight_pipe (set_backlight_brightness H v s) = key_backlight_pipe s"
  "product_id (set_backlight_brightness H v s) = product_id s"
  by (simp_all add: set_backlight_brightness_def Let_def split: product_id_t.split)

lemma set_backlight_brightness_twice:
  "set_backlight_brightness H v (set_backlight_brightness H v s) = set_backlight_brightness H v s"
proof (cases "v = - 1")
  case True
  then show ?thesis by (simp add: set_backlight_brightness_same)
next
  case False
  then have "cached_brightness (set_backlight_brightness H v s) = v"
    by (rule set_backlight_brightness_cached)
  then show ?thesis by (simp add: set_backlight_brightness_same)
qed

lemma level_requests_append:
  "level_requests H (vs @ ws) s = level_requests H ws (level_requests H vs s)"
  by (induction vs arbitrary: s) simp_all

subsection \<open>Repeated level requests\<close>

text \<open>
  Claim C4. After any sequence of level requests \<open>vs\<close>, from any state and on any product,
  a level \<open>v\<close> requested twice in a row leaves the module in the state the first of the two
  requests left it in: no further file is written, and the enabled flag and the cached
  level are those of the first request. A request for the sentinel \<open>-1\<close> changes nothing
  either.
\<close>

theorem repeated_level_request:
  "level_requests H (vs @ [v, v]) s = level_requests H (vs @ [v]) s
   \<and> hw_writes (level_requests H (vs @ [v, v]) s) = hw_writes (level_requests H (vs @ [v]) s)
   \<and> level_requests H (vs @ [- 1]) s = level_requests H vs s"
  by (simp add: level_requests_append set_backlight_brightness_twice
      set_backlight_brightness_same)

subsection \<open>The guard of the Lysti backend\<close>

lemma example_state_simps:
  "old_brightness example_state = 0"
  "key_backlight_timeout_cb_id example_state = 0"
  "cached_brightness example_state = - 1"
  "product_id example_state = PRODUCT_RX51"
  "hw_writes example_state = []"
  by (simp_all add: example_state_def initial_state_def)

lemma set_backlight_brightness_ignored:
  "lysti_product (product_id s) \<Longrightarrow> old_brightness s = 0 \<Longrightarrow>
   key_backlight_timeout_cb_id s = 0 \<Longrightarrow>
   set_backlight_brightness H v s =
     (if v = cached_brightness s \<or> v = - 1 then s
      else s\<lparr>cached_brightness := v, key_backlight_is_enabled := (v \<noteq> 0)\<rparr>)"
  by (auto simp add: set_backlight_brightness_def lysti_product_def set_lysti_ignored)

text \<open>
  Claim C1, as amended. On a product with the Lysti backend, when the backend's previous
  brightness is 0 and no timer is scheduled, the backend call for a nonzero level \<open>v\<close>
  changes nothing at all, and the level request writes no file. The level trigger has
  stored the request before it calls the backend, though: unless the request is
  deduplicated (it equals \<open>cached_brightness\<close> or is \<open>-1\<close>), \<open>cached_brightness\<close> becomes \<open>v\<close>
  and the enabled flag becomes true, and nothing else changes.
\<close>

theorem lysti_guard_request:
  "lysti_product (product_id s) \<Longrightarrow> old_brightness s = 0 \<Longrightarrow>
   key_backlight_timeout_cb_id s = 0 \<Longrightarrow> v \<noteq> 0 \<Longrightarrow>
   set_lysti_backlight_brightness H fadetime v s = s
   \<and> hw_writes (set_backlight_brightness H v s) = hw_writes s
   \<and> set_backlight_brightness H v s =
       (if v = cached_brightness s \<or> v = - 1 then s
        else s\<lparr>cached_brightness := v, key_backlight_is_enabled := True\<rparr>)"
  by (simp add: set_backlight_brightness_ignored set_lysti_ignored)

text \<open>The scenario of the spec: previous brightness 0, no timer, request 128.\<close>

theorem lysti_guard_request_witness:
  "lysti_product (product_id example_state) \<and> old_brightness example_state = 0
   \<and> key_backlight_timeout_cb_id example_state = 0 \<and> (128 :: gint) \<noteq> 0
   \<and> set_lysti_backlight_brightness example_h 250 128 example_state = example_state
   \<and> hw_writes (set_backlight_brightness example_h 128 example_state) = []
   \<and> set_backlight_brightness example_h 128 example_state =
       example_state\<lparr>cached_brightness := 128, key_backlight_is_enabled := True\<rparr>"
  using lysti_guard_request [of example_state 128 example_h 250]
  by (simp add: example_state_simps lysti_product_def)

text \<open>
  Claim C1 as the spec states it fails in that scenario: the request for 128 is ignored by
  the backend, and \<open>cached_brightness\<close> has changed from \<open>-1\<close> to 128 all the same.
\<close>

theorem lysti_guard_request_counterexample:
  "old_brightness example_state = 0 \<and> key_backlight_timeout_cb_id example_state = 0
   \<and> lysti_product (product_id example_state)
   \<and> cached_brightness (set_backlight_brightness example_h 128 example_state) = 128
   \<and> cached_brightness example_state = - 1
   \<and> set_backlight_brightness example_h 128 example_state \<noteq> example_state"
proof -
  have c: "cached_brightness (set_backlight_brightness example_h 128 example_state) = 128"
    by (simp add: set_backlight_brightness_cached)
  have "set_backlight_brightness example_h 128 example_state \<noteq> example_state"
  proof
    assume "set_backlight_brightness example_h 128 example_state = example_state"
    then have "cached_brightness (set_backlight_brightness example_h 128 example_state)
                 = cached_brightness example_state"
      by simp
    with c show False by (simp add: example_state_simps)
  qed
  with c show ?thesis by (simp add: example_state_simps lysti_product_def)
qed

subsection \<open>The enabled flag\<close>

text \<open>
  Claim C10. After a level request \<open>v\<close> that passes the deduplication (it differs from
  \<open>cached_brightness\<close> and from \<open>-1\<close>), the enabled flag is \<open>v \<noteq> 0\<close>, and that is the boolean
  of the status reply. This holds on every product; on a product with the Lysti backend
  whose previous brightness is 0 and whose timer is not scheduled, no file has been written
  for the request.
\<close>

theorem enabled_after_level_request:
  "v \<noteq> cached_brightness s \<Longrightarrow> v \<noteq> - 1 \<Longrightarrow>
   key_backlight_is_enabled (set_backlight_brightness H v s) = (v \<noteq> 0)
   \<and> send_key_backlight_state True send_ok (set_backlight_brightness H v s)
       = (send_ok, Some (v \<noteq> 0))
   \<and> (lysti_product (product_id s) \<and> old_brightness s = 0
        \<and> key_backlight_timeout_cb_id s = 0
       \<longrightarrow> hw_writes (set_backlight_brightness H v s) = hw_writes s)"
  by (simp add: set_backlight_brightness_enabled send_key_backlight_state_def
      set_backlight_brightness_ignored)

text \<open>The status query reports the backlight enabled and no file was ever written.\<close>

theorem enabled_after_level_request_witness:
  "(128 :: gint) \<noteq> cached_brightness example_state \<and> (128 :: gint) \<noteq> - 1
   \<and> lysti_product (product_id example_state) \<and> old_brightness example_state = 0
   \<and> key_backlight_timeout_cb_id example_state = 0
   \<and> key_backlight_is_enabled (set_backlight_brightness example_h 128 example_state) = True
   \<and> send_key_backlight_state True True (set_backlight_brightness example_h 128 example_state)
       = (True, Some True)
   \<and> hw_writes (set_backlight_brightness example_h 128 example_state) = []"
  using enabled_after_level_request [of 128 example_state example_h True]
  by (simp add: example_state_simps lysti_product_def)

subsection \<open>The timer and the level channel\<close>

lemma cancel_eq:
  "cancel_key_backlight_timeout s =
     s\<lparr>glib_timeouts :=
         (if key_backlight_timeout_cb_id s = 0 then glib_timeouts s
          else filter (\<lambda>t. fst t \<noteq> key_backlight_timeout_cb_id s) (glib_timeouts s)),
       key_backlight_timeout_cb_id := 0\<rparr>"
  by (cases s) (simp add: cancel_key_backlight_timeout_def g_source_remove_def)

lemma cancel_idle:
  "key_backlight_timeout_cb_id s = 0 \<Longrightarrow> cancel_key_backlight_timeout s = s"
  by (simp add: cancel_key_backlight_timeout_def)

lemma consistent_filter:
  "timer_consistent s \<Longrightarrow>
   (if key_backlight_timeout_cb_id s = 0 then glib_timeouts s
    else filter (\<lambda>t. fst t \<noteq> key_backlight_timeout_cb_id s) (glib_timeouts s)) = []"
  by (cases "glib_timeouts s") (auto simp add: timer_consistent_def split: if_splits)

lemma setup_eq:
  "setup_key_backlight_timeout s =
     s\<lparr>glib_timeouts :=
         (if key_backlight_timeout_cb_id s = 0 then glib_timeouts s
          else filter (\<lambda>t. fst t \<noteq> key_backlight_timeout_cb_id s) (glib_timeouts s))
         @ [(Suc (glib_last_id s), key_backlight_timeout s)],
       glib_last_id := Suc (glib_last_id s),
       key_backlight_timeout_cb_id := Suc (glib_last_id s)\<rparr>"
  by (simp add: setup_key_backlight_timeout_def cancel_eq g_timeout_add_seconds_def Let_def)

lemma execute_frame [simp]:
  "key_backlight_timeout_cb_id (execute_datapipe_key_backlight H v s) = key_backlight_timeout_cb_id s"
  "glib_timeouts (execute_datapipe_key_backlight H v s) = glib_timeouts s"
  "glib_last_id (execute_datapipe_key_backlight H v s) = glib_last_id s"
  "pipe_pushes (execute_datapipe_key_backlight H v s) = pipe_pushes s @ [v]"
  "key_backlight_pipe (execute_datapipe_key_backlight H v s) = v"
  by (simp_all add: execute_datapipe_key_backlight_def)

lemma execute_cached:
  "v \<noteq> - 1 \<Longrightarrow> cached_brightness (execute_datapipe_key_backlight H v s) = v"
  by (simp add: execute_datapipe_key_backlight_def set_backlight_brightness_cached)

lemma execute_same:
  "cached_brightness s = v \<Longrightarrow> key_backlight_pipe s = v \<Longrightarrow>
   execute_datapipe_key_backlight H v s = s\<lparr>pipe_pushes := pipe_pushes s @ [v]\<rparr>"
  by (cases s) (simp add: execute_datapipe_key_backlight_def set_backlight_brightness_same)

lemma disable_fields:
  "key_backlight_timeout_cb_id (disable_key_backlight H s) = 0"
  "glib_timeouts (disable_key_backlight H s) =
     (if key_backlight_timeout_cb_id s = 0 then glib_timeouts s
      else filter (\<lambda>t. fst t \<noteq> key_backlight_timeout_cb_id s) (glib_timeouts s))"
  "pipe_pushes (disable_key_backlight H s) = pipe_pushes s @ [0]"
  "key_backlight_pipe (disable_key_backlight H s) = 0"
  "cached_brightness (disable_key_backlight H s) = 0"
  by (simp_all add: disable_key_backlight_def cancel_eq execute_cached)

lemma disable_twice:
  "disable_key_backlight H (disable_key_backlight H s) =
     (disable_key_backlight H s)\<lparr>pipe_pushes := pipe_pushes s @ [0, 0]\<rparr>"
proof -
  let ?d = "disable_key_backlight H s"
  have "disable_key_backlight H ?d = execute_datapipe_key_backlight H 0 ?d"
    by (simp add: disable_key_backlight_def [of H ?d] cancel_idle disable_fields)
  also have "\<dots> = ?d\<lparr>pipe_pushes := pipe_pushes ?d @ [0]\<rparr>"
    by (rule execute_same) (simp_all add: disable_fields)
  finally show ?thesis by (simp add: disable_fields)
qed

subsection \<open>Concrete states\<close>

lemma example_h_simps:
  "DEFAULT_KEY_BACKLIGHT_LEVEL example_h = 255"
  "MCE_TKLOCK_SUBMODE example_h = 8"
  by (simp_all add: example_h_def)

lemma example_state_simps2:
  "keyboard_slide_pipe example_state = COVER_OPEN"
  "system_state_pipe example_state = MCE_STATE_USER"
  "key_backlight_pipe example_state = 0"
  "submode example_state = 0"
  "glib_timeouts example_state = []"
  "glib_last_id example_state = 0"
  "pipe_pushes example_state = []"
  "key_backlight_timeout example_state = 30"
  by (simp_all add: example_state_def initial_state_def example_h_def)

lemma lit_state_simps:
  "key_backlight_timeout_cb_id lit_state = 1"
  "glib_timeouts lit_state = [(1, 30)]"
  "glib_last_id lit_state = 1"
  "key_backlight_pipe lit_state = 255"
  "pipe_pushes lit_state = [255]"
  "cached_brightness lit_state = 255"
  "old_brightness lit_state = 255"
  "keyboard_slide_pipe lit_state = COVER_OPEN"
  "system_state_pipe lit_state = MCE_STATE_USER"
  "submode lit_state = 0"
  "key_backlight_timeout lit_state = 30"
  "hw_writes lit_state = []"
  by (simp_all add: lit_state_def example_state_def initial_state_def example_h_def)

lemmas example_defs = example_h_simps example_state_simps example_state_simps2 lit_state_simps

lemma lit_on_simps:
  "old_display_state lit_on_state = MCE_DISPLAY_ON"
  "key_backlight_timeout_cb_id lit_on_state = 1"
  "glib_last_id lit_on_state = 1"
  "keyboard_slide_pipe lit_on_state = COVER_OPEN"
  "system_state_pipe lit_on_state = MCE_STATE_USER"
  by (simp_all add: lit_on_state_def lit_state_simps)

subsection \<open>Disabling\<close>

text \<open>
  Claim C2. In every state, \<open>disable_key_backlight\<close> leaves no timer handle, has removed
  the pending timer's source from GLib (so that no source is left when handle and sources
  agreed), has pushed level 0 into the level channel, whose value is then 0, and the level
  trigger's cached level is 0. Disabling once more only pushes another 0 into the channel:
  every other part of the state, the file writes among them, stays as the first disabling
  left it. The function has no error result because the source has none: the handle is
  tested before \<open>g_source_remove\<close> is called, and the results of the writes are discarded.
\<close>

theorem disable_idempotent:
  "key_backlight_timeout_cb_id (disable_key_backlight H s) = 0
   \<and> glib_timeouts (disable_key_backlight H s) =
       (if key_backlight_timeout_cb_id s = 0 then glib_timeouts s
        else filter (\<lambda>t. fst t \<noteq> key_backlight_timeout_cb_id s) (glib_timeouts s))
   \<and> (timer_consistent s \<longrightarrow> glib_timeouts (disable_key_backlight H s) = [])
   \<and> pipe_pushes (disable_key_backlight H s) = pipe_pushes s @ [0]
   \<and> key_backlight_pipe (disable_key_backlight H s) = 0
   \<and> cached_brightness (disable_key_backlight H s) = 0
   \<and> disable_key_backlight H (disable_key_backlight H s) =
       (disable_key_backlight H s)\<lparr>pipe_pushes := pipe_pushes s @ [0, 0]\<rparr>
   \<and> hw_writes (disable_key_backlight H (disable_key_backlight H s)) =
       hw_writes (disable_key_backlight H s)"
  by (simp add: disable_fields disable_twice consistent_filter)

text \<open>Disabling with a timer pending, and disabling again.\<close>

theorem disable_idempotent_witness:
  "timer_consistent lit_state
   \<and> key_backlight_timeout_cb_id lit_state = 1
   \<and> key_backlight_timeout_cb_id (disable_key_backlight example_h lit_state) = 0
   \<and> glib_timeouts (disable_key_backlight example_h lit_state) = []
   \<and> pipe_pushes (disable_key_backlight example_h lit_state) = [255, 0]
   \<and> pipe_pushes (disable_key_backlight example_h (disable_key_backlight example_h lit_state))
       = [255, 0, 0]
   \<and> hw_writes (disable_key_backlight example_h (disable_key_backlight example_h lit_state))
       = hw_writes (disable_key_backlight example_h lit_state)"
  using disable_idempotent [of example_h lit_state]
  by (simp add: example_defs timer_consistent_def)

subsection \<open>The enable policy\<close>

lemma enable_open:
  "keyboard_slide_pipe s = COVER_OPEN \<Longrightarrow> key_backlight_timeout_cb_id s = 0 \<Longrightarrow>
   enable_key_backlight H s =
     (if key_backlight_pipe s = 0
      then execute_datapipe_key_backlight H (DEFAULT_KEY_BACKLIGHT_LEVEL H)
             (setup_key_backlight_timeout s)
      else setup_key_backlight_timeout s)"
  by (simp add: enable_key_backlight_def cancel_idle Let_def setup_eq)

lemma policy_cases:
  "enable_key_backlight_policy H s =
     (if policy_allows s
      then (if key_backlight_timeout_cb_id s \<noteq> 0 then setup_key_backlight_timeout s
            else enable_key_backlight H s)
      else s)"
  by (auto simp add: enable_key_backlight_policy_def policy_allows_def Let_def)

lemma policy_allows_open: "policy_allows s \<Longrightarrow> keyboard_slide_pipe s = COVER_OPEN"
  by (simp add: policy_allows_def)

text \<open>
  Claim C5. \<open>enable_key_backlight_policy\<close> does nothing unless the slide is open and the
  system state is the user state or the alarm UI is visible or ringing. When it goes on
  and a timer is pending, it only replaces the timer: the old source is removed, a new one
  with the configured timeout is added and becomes the handle, and no level is pushed and
  no file written. When it goes on and no timer is pending, it does what
  \<open>enable_key_backlight\<close> does: a timer is scheduled, and the default level is pushed into
  the level channel if the channel's level is 0, and nothing is pushed otherwise.
\<close>

theorem enable_policy:
  "(\<not> policy_allows s \<longrightarrow> enable_key_backlight_policy H s = s)
   \<and> (policy_allows s \<and> key_backlight_timeout_cb_id s \<noteq> 0 \<longrightarrow>
        enable_key_backlight_policy H s =
          s\<lparr>glib_timeouts :=
               filter (\<lambda>t. fst t \<noteq> key_backlight_timeout_cb_id s) (glib_timeouts s)
               @ [(Suc (glib_last_id s), key_backlight_timeout s)],
            glib_last_id := Suc (glib_last_id s),
            key_backlight_timeout_cb_id := Suc (glib_last_id s)\<rparr>
        \<and> pipe_pushes (enable_key_backlight_policy H s) = pipe_pushes s
        \<and> hw_writes (enable_key_backlight_policy H s) = hw_writes s)
   \<and> (policy_allows s \<and> key_backlight_timeout_cb_id s = 0 \<longrightarrow>
        enable_key_backlight_policy H s = enable_key_backlight H s
        \<and> key_backlight_timeout_cb_id (enable_key_backlight_policy H s) = Suc (glib_last_id s)
        \<and> glib_timeouts (enable_key_backlight_policy H s) =
            glib_timeouts s @ [(Suc (glib_last_id s), key_backlight_timeout s)]
        \<and> pipe_pushes (enable_key_backlight_policy H s) =
            (if key_backlight_pipe s = 0
             then pipe_pushes s @ [DEFAULT_KEY_BACKLIGHT_LEVEL H] else pipe_pushes s)
        \<and> key_backlight_pipe (enable_key_backlight_policy H s) =
            (if key_backlight_pipe s = 0
             then DEFAULT_KEY_BACKLIGHT_LEVEL H else key_backlight_pipe s))"
  by (simp add: policy_cases setup_eq enable_open policy_allows_open)

text \<open>
  The three cases: the slide closed; a timer pending; and the scenario of the spec (slide
  open, user state, level 0, no timer), where the timer is scheduled and the default level
  255 is pushed.
\<close>

theorem enable_policy_witness:
  "\<not> policy_allows (example_state\<lparr>keyboard_slide_pipe := COVER_CLOSED\<rparr>)
   \<and> enable_key_backlight_policy example_h (example_state\<lparr>keyboard_slide_pipe := COVER_CLOSED\<rparr>)
       = example_state\<lparr>keyboard_slide_pipe := COVER_CLOSED\<rparr>
   \<and> policy_allows lit_state \<and> key_backlight_timeout_cb_id lit_state \<noteq> 0
   \<and> enable_key_backlight_policy example_h lit_state
       = lit_state\<lparr>glib_timeouts := [(2, 30)], glib_last_id := 2,
                    key_backlight_timeout_cb_id := 2\<rparr>
   \<and> pipe_pushes (enable_key_backlight_policy example_h lit_state) = pipe_pushes lit_state
   \<and> hw_writes (enable_key_backlight_policy example_h lit_state) = hw_writes lit_state
   \<and> policy_allows example_state \<and> key_backlight_timeout_cb_id example_state = 0
   \<and> key_backlight_pipe example_state = 0
   \<and> key_backlight_timeout_cb_id (enable_key_backlight_policy example_h example_state) = 1
   \<and> glib_timeouts (enable_key_backlight_policy example_h example_state) = [(1, 30)]
   \<and> pipe_pushes (enable_key_backlight_policy example_h example_state) = [255]
   \<and> key_backlight_pipe (enable_key_backlight_policy example_h example_state) = 255"
  using enable_policy [of "example_state\<lparr>keyboard_slide_pipe := COVER_CLOSED\<rparr>" example_h]
    enable_policy [of lit_state example_h] enable_policy [of example_state example_h]
  by (auto simp add: example_defs policy_allows_def)

subsection \<open>The keyboard slide trigger\<close>

text \<open>
  Claim C9. When the cover position is open and the keylock bit of the submode is not set,
  \<open>keyboard_slide_trigger\<close> is \<open>enable_key_backlight_policy\<close>; in every other case it is
  \<open>disable_key_backlight\<close>. So for every position other than open, level 0 is pushed into
  the level channel and no timer is left: the handle is 0, and GLib has no source when
  handle and sources agreed before.
\<close>

theorem keyboard_slide_effect:
  "(data = COVER_OPEN \<and> submode s AND MCE_TKLOCK_SUBMODE H = 0 \<longrightarrow>
      keyboard_slide_trigger H data s = enable_key_backlight_policy H s)
   \<and> (data \<noteq> COVER_OPEN \<or> submode s AND MCE_TKLOCK_SUBMODE H \<noteq> 0 \<longrightarrow>
      keyboard_slide_trigger H data s = disable_key_backlight H s)
   \<and> (data \<noteq> COVER_OPEN \<longrightarrow>
      pipe_pushes (keyboard_slide_trigger H data s) = pipe_pushes s @ [0]
      \<and> key_backlight_pipe (keyboard_slide_trigger H data s) = 0
      \<and> key_backlight_timeout_cb_id (keyboard_slide_trigger H data s) = 0
      \<and> (timer_consistent s \<longrightarrow> glib_timeouts (keyboard_slide_trigger H data s) = []))"
  by (auto simp add: keyboard_slide_trigger_def disable_fields consistent_filter)

text \<open>Slide open without keylock, slide open with the keylock bit set, and slide closed
  while a timer is pending.\<close>

theorem keyboard_slide_effect_witness:
  "submode example_state AND MCE_TKLOCK_SUBMODE example_h = 0
   \<and> keyboard_slide_trigger example_h COVER_OPEN example_state
       = enable_key_backlight_policy example_h example_state
   \<and> submode (lit_state\<lparr>submode := 8\<rparr>) AND MCE_TKLOCK_SUBMODE example_h \<noteq> 0
   \<and> keyboard_slide_trigger example_h COVER_OPEN (lit_state\<lparr>submode := 8\<rparr>)
       = disable_key_backlight example_h (lit_state\<lparr>submode := 8\<rparr>)
   \<and> COVER_CLOSED \<noteq> COVER_OPEN \<and> timer_consistent lit_state
   \<and> keyboard_slide_trigger example_h COVER_CLOSED lit_state
       = disable_key_backlight example_h lit_state
   \<and> pipe_pushes (keyboard_slide_trigger example_h COVER_CLOSED lit_state) = [255, 0]
   \<and> key_backlight_pipe (keyboard_slide_trigger example_h COVER_CLOSED lit_state) = 0
   \<and> key_backlight_timeout_cb_id (keyboard_slide_trigger example_h COVER_CLOSED lit_state) = 0
   \<and> glib_timeouts (keyboard_slide_trigger example_h COVER_CLOSED lit_state) = []"
  using keyboard_slide_effect [of COVER_OPEN example_state example_h]
    keyboard_slide_effect [of COVER_OPEN "lit_state\<lparr>submode := 8\<rparr>" example_h]
    keyboard_slide_effect [of COVER_CLOSED lit_state example_h]
  by (auto simp add: example_defs timer_consistent_def)

subsection \<open>The display state trigger\<close>

lemma display_same:
  "old_display_state s = d \<Longrightarrow> display_state_trigger H d s = s"
  by (simp add: display_state_trigger_def)

lemma display_undef:
  "old_display_state s \<noteq> MCE_DISPLAY_UNDEF \<Longrightarrow>
   display_state_trigger H MCE_DISPLAY_UNDEF s = s\<lparr>old_display_state := MCE_DISPLAY_UNDEF\<rparr>"
  by (simp add: display_state_trigger_def)

lemma display_dim:
  "old_display_state s \<noteq> d \<Longrightarrow>
   d = MCE_DISPLAY_OFF \<or> d = MCE_DISPLAY_LPM_OFF \<or> d = MCE_DISPLAY_LPM_ON \<or> d = MCE_DISPLAY_DIM \<Longrightarrow>
   display_state_trigger H d s = (disable_key_backlight H s)\<lparr>old_display_state := d\<rparr>"
  by (auto simp add: display_state_trigger_def)

lemma display_on:
  "old_display_state s \<noteq> MCE_DISPLAY_ON \<Longrightarrow>
   display_state_trigger H MCE_DISPLAY_ON s =
     (enable_key_backlight_policy H s)\<lparr>old_display_state := MCE_DISPLAY_ON\<rparr>"
  by (simp add: display_state_trigger_def)

lemma display_old:
  "old_display_state (display_state_trigger H d s) = d"
  by (simp add: display_state_trigger_def Let_def)

lemma display_twice:
  "display_state_trigger H d (display_state_trigger H d s) = display_state_trigger H d s"
  by (rule display_same) (rule display_old)

lemma display_events_append:
  "display_events H (ds @ es) s = display_events H es (display_events H ds s)"
  by (induction ds arbitrary: s) simp_all

text \<open>
  Claim C8, as amended. On the display state it saw last, \<open>display_state_trigger\<close> does
  nothing. On the undefined state it neither enables nor disables, and it records the
  undefined state as the one seen last. On a change to off, to one of the two low power
  states or to dim, it disables the backlight. On a change to on it runs the enable policy
  once; a display state delivered twice in a row has the effect of one delivery, so a
  repeated on does not run the policy again.
\<close>

theorem display_trigger_effect:
  "(old_display_state s = d \<longrightarrow> display_state_trigger H d s = s)
   \<and> (old_display_state s \<noteq> MCE_DISPLAY_UNDEF \<longrightarrow>
        display_state_trigger H MCE_DISPLAY_UNDEF s
          = s\<lparr>old_display_state := MCE_DISPLAY_UNDEF\<rparr>)
   \<and> (old_display_state s \<noteq> d
        \<and> (d = MCE_DISPLAY_OFF \<or> d = MCE_DISPLAY_LPM_OFF \<or> d = MCE_DISPLAY_LPM_ON
             \<or> d = MCE_DISPLAY_DIM) \<longrightarrow>
        display_state_trigger H d s = (disable_key_backlight H s)\<lparr>old_display_state := d\<rparr>)
   \<and> (old_display_state s \<noteq> MCE_DISPLAY_ON \<longrightarrow>
        display_state_trigger H MCE_DISPLAY_ON s
          = (enable_key_backlight_policy H s)\<lparr>old_display_state := MCE_DISPLAY_ON\<rparr>)
   \<and> display_events H (ds @ [d, d]) s = display_events H (ds @ [d]) s"
  by (simp add: display_same display_undef display_dim display_on display_twice
      display_events_append)

text \<open>
  Claim C8 as the spec states it fails on the undefined state: with the display seen on,
  the undefined state changes the module's state, and the on state that follows runs the
  policy again (the timer is replaced, GLib gives out id 2), which an on state that repeats
  the last one does not.
\<close>

theorem display_trigger_effect_counterexample:
  "old_display_state lit_on_state = MCE_DISPLAY_ON
   \<and> display_state_trigger example_h MCE_DISPLAY_UNDEF lit_on_state \<noteq> lit_on_state
   \<and> glib_last_id (display_events example_h [MCE_DISPLAY_ON] lit_on_state) = 1
   \<and> glib_last_id (display_events example_h [MCE_DISPLAY_UNDEF, MCE_DISPLAY_ON] lit_on_state) = 2"
proof -
  have u: "display_state_trigger example_h MCE_DISPLAY_UNDEF lit_on_state
             = lit_on_state\<lparr>old_display_state := MCE_DISPLAY_UNDEF\<rparr>"
    by (simp add: display_undef lit_on_simps)
  have "display_state_trigger example_h MCE_DISPLAY_UNDEF lit_on_state \<noteq> lit_on_state"
  proof
    assume "display_state_trigger example_h MCE_DISPLAY_UNDEF lit_on_state = lit_on_state"
    then have "old_display_state (display_state_trigger example_h MCE_DISPLAY_UNDEF lit_on_state)
                 = old_display_state lit_on_state"
      by simp
    then show False by (simp add: display_old lit_on_simps)
  qed
  moreover have "glib_last_id (display_events example_h [MCE_DISPLAY_ON] lit_on_state) = 1"
    by (simp add: display_same lit_on_simps)
  moreover have
    "glib_last_id (display_events example_h [MCE_DISPLAY_UNDEF, MCE_DISPLAY_ON] lit_on_state) = 2"
    by (simp add: u display_on policy_cases policy_allows_def setup_eq lit_on_simps)
  ultimately show ?thesis by (simp add: lit_on_simps)
qed

text \<open>The display seen on and on again, then undefined, then off; and off, on, on from
  the initial state.\<close>

theorem display_trigger_effect_witness:
  "old_display_state lit_on_state = MCE_DISPLAY_ON
   \<and> display_state_trigger example_h MCE_DISPLAY_ON lit_on_state = lit_on_state
   \<and> old_display_state lit_on_state \<noteq> MCE_DISPLAY_UNDEF
   \<and> display_state_trigger example_h MCE_DISPLAY_UNDEF lit_on_state
       = lit_on_state\<lparr>old_display_state := MCE_DISPLAY_UNDEF\<rparr>
   \<and> old_display_state lit_on_state \<noteq> MCE_DISPLAY_OFF
   \<and> display_state_trigger example_h MCE_DISPLAY_OFF lit_on_state
       = (disable_key_backlight example_h lit_on_state)\<lparr>old_display_state := MCE_DISPLAY_OFF\<rparr>
   \<and> old_display_state example_state \<noteq> MCE_DISPLAY_ON
   \<and> display_state_trigger example_h MCE_DISPLAY_ON example_state
       = (enable_key_backlight_policy example_h example_state)
           \<lparr>old_display_state := MCE_DISPLAY_ON\<rparr>
   \<and> display_events example_h [MCE_DISPLAY_OFF, MCE_DISPLAY_ON, MCE_DISPLAY_ON] example_state
       = display_events example_h [MCE_DISPLAY_OFF, MCE_DISPLAY_ON] example_state"
  using display_trigger_effect [of lit_on_state MCE_DISPLAY_ON example_h "[]"]
    display_trigger_effect [of lit_on_state MCE_DISPLAY_OFF example_h "[]"]
    display_trigger_effect [of example_state MCE_DISPLAY_ON example_h "[MCE_DISPLAY_OFF]"]
  by (simp add: lit_on_simps example_state_def initial_state_def)

subsection \<open>The fade times of the configuration\<close>

lemma sint_125: "sint (125 :: gint) = 125"
  by simp

lemma rem_bound:
  fixes x :: int
  shows "\<bar>sgn x * (\<bar>x\<bar> mod 125)\<bar> < 125"
  by (simp add: abs_mult abs_sgn_eq)

lemma word_of_int_small_eq_0:
  fixes r :: int
  assumes "\<bar>r\<bar> < 125"
  shows "(word_of_int r :: gint) = 0 \<longleftrightarrow> r = 0"
proof
  assume "(word_of_int r :: gint) = 0"
  then have "2 ^ 32 dvd r" by (simp add: word_of_int_eq_0_iff)
  then obtain k where k: "r = 2 ^ 32 * k" ..
  show "r = 0"
  proof (rule ccontr)
    assume "r \<noteq> 0"
    with k have "k \<noteq> 0" by auto
    then have "\<bar>k\<bar> \<ge> 1" by simp
    then have "\<bar>r\<bar> \<ge> 2 ^ 32" using k by (simp add: abs_mult)
    with assms show False by simp
  qed
next
  assume "r = 0" then show "(word_of_int r :: gint) = 0" by simp
qed

lemma rem_zero:
  fixes x :: int
  shows "(sgn x * (\<bar>x\<bar> mod 125) = 0) = (125 dvd x)"
proof (cases "x = 0")
  case True
  then show ?thesis by simp
next
  case False
  then have "sgn x = 1 \<or> sgn x = - 1" by (auto simp add: sgn_if)
  then have "(sgn x * (\<bar>x\<bar> mod 125) = 0) = (\<bar>x\<bar> mod 125 = 0)" by auto
  also have "\<dots> = (125 dvd \<bar>x\<bar>)" by (simp add: dvd_eq_mod_eq_0)
  also have "\<dots> = (125 dvd x)" by simp
  finally show ?thesis .
qed

lemma gint_rem_125: "gint_rem t 125 \<noteq> 0 \<longleftrightarrow> \<not> 125 dvd sint t"
proof -
  have "gint_rem t 125 = word_of_int (sgn (sint t) * (\<bar>sint t\<bar> mod 125))"
    by (simp only: gint_rem_def sint_125 abs_numeral)
  then have "(gint_rem t 125 = 0) = (sgn (sint t) * (\<bar>sint t\<bar> mod 125) = 0)"
    by (simp only: word_of_int_small_eq_0 [OF rem_bound])
  then show ?thesis by (simp only: rem_zero)
qed


lemma fade_time_check_eq:
  "fade_time_check d t = (if 1000 < sint t \<and> \<not> 125 dvd sint t then d else t)"
  unfolding fade_time_check_def gint_rem_125 word_sless_alt by auto

lemma setup_key_backlight_fade [simp]:
  "key_backlight_fade_in_time (setup_key_backlight H s) = key_backlight_fade_in_time s"
  "key_backlight_fade_out_time (setup_key_backlight H s) = key_backlight_fade_out_time s"
  by (simp_all add: setup_key_backlight_def split: product_id_t.split)


lemma init_fade_times:
  "key_backlight_fade_in_time (g_module_check_init H conf handler_ok s) =
     fade_time_check (DEFAULT_KEY_BACKLIGHT_FADE_IN_TIME H)
       (mce_conf_get_int (MCE_CONF_KEY_BACKLIGHT_FADE_IN_TIME conf)
          (DEFAULT_KEY_BACKLIGHT_FADE_IN_TIME H))"
  "key_backlight_fade_out_time (g_module_check_init H conf handler_ok s) =
     fade_time_check (DEFAULT_KEY_BACKLIGHT_FADE_OUT_TIME H)
       (mce_conf_get_int (MCE_CONF_KEY_BACKLIGHT_FADE_OUT_TIME conf)
          (DEFAULT_KEY_BACKLIGHT_FADE_OUT_TIME H))"
  by (simp_all add: g_module_check_init_def Let_def)

lemma example_conf_simps:
  "MCE_CONF_KEY_BACKLIGHT_FADE_IN_TIME example_conf = Some 300"
  "MCE_CONF_KEY_BACKLIGHT_FADE_OUT_TIME example_conf = Some 1001"
  "DEFAULT_KEY_BACKLIGHT_FADE_IN_TIME example_h = 250"
  "DEFAULT_KEY_BACKLIGHT_FADE_OUT_TIME example_h = 1000"
  by (simp_all add: example_conf_def mce_conf_get_int_def example_h_def)

text \<open>
  Claim C3, as amended. The fade-in time and the fade-out time that \<open>g_module_check_init\<close>
  loads are the configured value (the default when there is none), replaced by the default
  exactly when the value is greater than 1000 and not a multiple of 125. A value of at most
  1000 is kept whatever it is.
\<close>

theorem fade_times_loaded:
  "key_backlight_fade_in_time (g_module_check_init H conf handler_ok s) =
     (let t = mce_conf_get_int (MCE_CONF_KEY_BACKLIGHT_FADE_IN_TIME conf)
                (DEFAULT_KEY_BACKLIGHT_FADE_IN_TIME H)
      in if 1000 < sint t \<and> \<not> 125 dvd sint t
         then DEFAULT_KEY_BACKLIGHT_FADE_IN_TIME H else t)
   \<and> key_backlight_fade_out_time (g_module_check_init H conf handler_ok s) =
     (let t = mce_conf_get_int (MCE_CONF_KEY_BACKLIGHT_FADE_OUT_TIME conf)
                (DEFAULT_KEY_BACKLIGHT_FADE_OUT_TIME H)
      in if 1000 < sint t \<and> \<not> 125 dvd sint t
         then DEFAULT_KEY_BACKLIGHT_FADE_OUT_TIME H else t)"
  by (simp add: g_module_check_init_def Let_def fade_time_check_eq)

text \<open>A fade-in time of 300 is kept, and a fade-out time of 1001 becomes the default 1000.\<close>

theorem fade_times_loaded_witness:
  "key_backlight_fade_in_time (g_module_check_init example_h example_conf True example_state)
     = 300
   \<and> key_backlight_fade_out_time (g_module_check_init example_h example_conf True example_state)
     = 1000"
  using fade_times_loaded [of example_h example_conf True example_state]
  by (simp add: example_conf_simps mce_conf_get_int_def)

text \<open>
  Claim C3 as the spec states it fails for a configured fade-in time of 300 ms: it is under
  1000 and not a multiple of 125, and it is kept, not replaced by the default 250.
\<close>

theorem fade_times_loaded_counterexample:
  "sint (300 :: gint) < 1000 \<and> \<not> 125 dvd sint (300 :: gint)
   \<and> MCE_CONF_KEY_BACKLIGHT_FADE_IN_TIME example_conf = Some 300
   \<and> DEFAULT_KEY_BACKLIGHT_FADE_IN_TIME example_h = 250
   \<and> key_backlight_fade_in_time (g_module_check_init example_h example_conf True example_state)
       = 300"
  by (simp add: init_fade_times example_conf_simps mce_conf_get_int_def fade_time_check_eq)

subsection \<open>The step speed\<close>

lemma checked_range:
  "1 \<le> sint (stepspeed_checked x) \<and> sint (stepspeed_checked x) \<le> 31"
  by (simp add: stepspeed_checked_def word_sless_alt)

lemma sint_double_plus:
  fixes c :: gint and d :: int
  assumes "1 \<le> sint c" "sint c \<le> 31" "d = 0 \<or> d = 1"
  shows "sint (c * 2 + word_of_int d) = 2 * sint c + d"
proof -
  have e: "c * 2 + word_of_int d = (word_of_int (2 * sint c + d) :: gint)"
    by simp
  show ?thesis
    unfolding e sint_sbintrunc'
    by (rule signed_take_bit_int_eq_self) (use assms in auto)
qed

lemma encoded_sint:
  "sint (stepspeed_encoded fadetime steps) =
     2 * sint (stepspeed_checked (stepspeed_computed fadetime steps))
       + (if 0 < sint steps then 0 else 1)"
proof -
  let ?c = "stepspeed_checked (stepspeed_computed fadetime steps)"
  let ?d = "if 0 < sint steps then 0 else (1 :: int)"
  have "stepspeed_encoded fadetime steps = ?c * 2 + word_of_int ?d"
    by (simp add: stepspeed_encoded_def word_sless_alt)
  moreover have "sint (?c * 2 + word_of_int ?d) = 2 * sint ?c + ?d"
    by (rule sint_double_plus) (simp_all add: checked_range)
  ultimately show ?thesis by simp
qed

lemma sint_steps:
  fixes brightness old :: gint
  assumes "- (2 ^ 31) \<le> sint brightness - sint old" "sint brightness - sint old < 2 ^ 31"
  shows "sint (brightness - old) = sint brightness - sint old"
  unfolding sint_word_diff
  by (rule signed_take_bit_int_eq_self) (use assms in simp_all)

text \<open>
  Claim C6. For every fade time and every pair of brightnesses, the step speed after the
  sanity check lies between 1 and 31. When the two brightnesses differ (the fading branch)
  and their difference is a \<open>gint\<close>, the encoded step speed is twice that value, plus 1
  exactly when the new brightness is below the old one.
\<close>

theorem fade_step_rate:
  "1 \<le> sint (stepspeed_checked (stepspeed_computed fadetime (brightness - old)))
   \<and> sint (stepspeed_checked (stepspeed_computed fadetime (brightness - old))) \<le> 31
   \<and> (brightness \<noteq> old \<and> - (2 ^ 31) \<le> sint brightness - sint old
        \<and> sint brightness - sint old < 2 ^ 31 \<longrightarrow>
       sint (stepspeed_encoded fadetime (brightness - old)) =
         2 * sint (stepspeed_checked (stepspeed_computed fadetime (brightness - old)))
           + (if sint brightness < sint old then 1 else 0))"
proof -
  have "sint brightness \<noteq> sint old" if "brightness \<noteq> old"
    using that by (auto dest: signed_word_eqI)
  then show ?thesis
    by (auto simp add: checked_range encoded_sint sint_steps)
qed

lemma double_0_49_value: "double_0_49 = (8827055269646172, - 54)"
  by (simp add: double_0_49_def b64_ratio.simps)

lemmas double_defs =
  stepspeed_computed_def double_0_49_def b64_div_def double_to_gint_def b64_ratio.simps
  double_1000_def guint_to_double_def ABS_def word_sless_alt

lemma computed_examples:
  "stepspeed_computed 4294967295 1 = 8765237"
  "stepspeed_computed 1000 (- 255) = 8"
  "stepspeed_computed 1 255 = 0"
  "stepspeed_computed 500 128 = 7"
  by (simp_all add: double_defs)

text \<open>
  The largest fade time with a difference of 1 (the product \<open>fadetime * 1000\<close> wraps, the
  quotient is 8765237 and is cut to 31); a fade from 255 to 0 in 1000 ms (speed 8, encoded
  as 17); and a fade time of 1 ms over 255 steps (the quotient is 0 and is raised to 1).
\<close>

theorem fade_step_rate_witness:
  "(1 :: gint) \<noteq> 0 \<and> (0 :: gint) \<noteq> 255
   \<and> sint (stepspeed_checked (stepspeed_computed 4294967295 (1 - 0))) = 31
   \<and> sint (stepspeed_encoded 4294967295 (1 - 0)) = 62
   \<and> sint (stepspeed_checked (stepspeed_computed 1000 (0 - 255))) = 8
   \<and> sint (stepspeed_encoded 1000 (0 - 255)) = 17
   \<and> sint (stepspeed_checked (stepspeed_computed 1 (255 - 0))) = 1
   \<and> sint (stepspeed_encoded 1 (255 - 0)) = 2"
  using fade_step_rate [of 4294967295 1 0] fade_step_rate [of 1000 0 255]
    fade_step_rate [of 1 255 0]
  by (simp add: computed_examples stepspeed_checked_def word_sless_alt)

subsection \<open>The micro-program of the Lysti backend\<close>

lemma encoded_500_128: "stepspeed_encoded 500 128 = 14"
  by (simp add: stepspeed_encoded_def computed_examples stepspeed_checked_def word_sless_alt)

lemma hex_examples:
  "hex_hi 64 = CHR ''4''" "hex_lo 64 = CHR ''0''"
  "hex_hi 14 = CHR ''0''" "hex_lo 14 = CHR ''e''"
  "hex_hi 128 = CHR ''8''" "hex_lo 128 = CHR ''0''"
  by (simp_all add: hex_hi_def hex_lo_def convert_def)

lemma lysti_pattern_fade:
  "fadetime \<noteq> 0 \<Longrightarrow> brightness \<noteq> old \<Longrightarrow>
   lysti_pattern
     (CHR ''9'' # CHR ''d'' # CHR ''8'' # CHR ''0'' # CHR ''4'' # CHR ''0'' # c6 # c7 # c8 # c9 # c10 # c11 # ''c000'')
     old fadetime brightness =
     ''9d8040'' @ [hex_hi old, hex_lo old,
                   hex_hi (stepspeed_encoded fadetime (brightness - old)),
                   hex_lo (stepspeed_encoded fadetime (brightness - old)),
                   hex_hi (ABS (brightness - old)), hex_lo (ABS (brightness - old))] @ ''c000''"
  by (simp add: lysti_pattern_def Let_def)

lemma lysti_pattern_jump:
  "fadetime = 0 \<or> brightness = old \<Longrightarrow>
   lysti_pattern
     (CHR ''9'' # CHR ''d'' # CHR ''8'' # CHR ''0'' # CHR ''4'' # CHR ''0'' # c6 # c7 # c8 # c9 # c10 # c11 # ''c000'')
     old fadetime brightness =
     ''9d8040'' @ [hex_hi brightness, hex_lo brightness] @ ''0000'' @ ''c000''"
  by (auto simp add: lysti_pattern_def Let_def)

lemma set_lysti_pattern:
  "\<not> (old_brightness s = 0 \<and> key_backlight_timeout_cb_id s = 0) \<Longrightarrow>
   pattern (set_lysti_backlight_brightness H fadetime brightness s) =
     lysti_pattern (pattern s) (old_brightness s) fadetime brightness"
  by (auto simp add: set_lysti_backlight_brightness_def write_defs Let_def)

lemma set_lysti_load:
  "\<not> (old_brightness s = 0 \<and> key_backlight_timeout_cb_id s = 0) \<Longrightarrow>
   hw_writes (set_lysti_backlight_brightness H fadetime brightness s) ! (length (hw_writes s) + 15) =
     (engine3_load_path, Str (lysti_pattern (pattern s) (old_brightness s) fadetime brightness))"
  by (auto simp add: set_lysti_backlight_brightness_def write_defs Let_def nth_append)

text \<open>
  Claim C7, as amended. The program is 16 hexadecimal characters: \<open>9d80\<close> and \<open>40\<close>, which
  never change, the start brightness, the encoded step speed, the number of steps, and
  \<open>c000\<close>, which never changes. From brightness 64 to 192 with a fade time of 500 ms the
  program written to the engine is \<open>9d80 4040 0e80 c000\<close>: start \<open>40\<close> is 64, the step speed
  is 7, which is the quotient \<open>((500 * 1000 / 128) / 0.49) / 1000\<close> cut to an integer, its
  encoding \<open>0e\<close> is \<open>2 * 7 + 0\<close> for an increase, and \<open>80\<close> is 128 steps. When the fade time
  is 0 or the brightness does not change, and the guard does not ignore the request, the
  program holds the target brightness followed by \<open>0000\<close>.
\<close>

theorem lysti_fade_program:
  "(old_brightness s = 64 \<and> pattern s = ''9d8040'' @ [c6, c7, c8, c9, c10, c11] @ ''c000'' \<longrightarrow>
      pattern (set_lysti_backlight_brightness H 500 192 s) = ''9d8040400e80c000''
      \<and> hw_writes (set_lysti_backlight_brightness H 500 192 s) ! (length (hw_writes s) + 15)
          = (engine3_load_path, Str ''9d8040400e80c000'')
      \<and> sint (stepspeed_checked (stepspeed_computed 500 (192 - 64))) = 7
      \<and> sint (stepspeed_encoded 500 (192 - 64)) = 2 * 7 + 0)
   \<and> (\<not> (old_brightness s = 0 \<and> key_backlight_timeout_cb_id s = 0)
       \<and> pattern s = ''9d8040'' @ [c6, c7, c8, c9, c10, c11] @ ''c000''
       \<and> (fadetime = 0 \<or> brightness = old_brightness s) \<longrightarrow>
      pattern (set_lysti_backlight_brightness H fadetime brightness s)
        = ''9d8040'' @ [hex_hi brightness, hex_lo brightness] @ ''0000'' @ ''c000'')"
proof -
  have a: "lysti_pattern (''9d8040'' @ [c6, c7, c8, c9, c10, c11] @ ''c000'') 64 500 192
             = ''9d8040400e80c000''"
    by (simp add: lysti_pattern_fade encoded_500_128 hex_examples ABS_def word_sless_alt)
  have b: "sint (stepspeed_checked (stepspeed_computed 500 (192 - 64))) = 7"
    by (simp add: computed_examples stepspeed_checked_def word_sless_alt)
  have c: "sint (stepspeed_encoded 500 (192 - 64)) = 2 * 7 + 0"
    by (simp add: encoded_500_128)
  show ?thesis
    using a b c
    by (auto simp add: set_lysti_pattern set_lysti_load lysti_pattern_jump)
qed

text \<open>The scenario in a concrete state, a fade time of 0, and an unchanged brightness.\<close>

theorem lysti_fade_program_witness:
  "old_brightness level64_state = 64
   \<and> pattern level64_state = ''9d8040'' @ ''000000'' @ ''c000''
   \<and> pattern (set_lysti_backlight_brightness example_h 500 192 level64_state)
       = ''9d8040400e80c000''
   \<and> hw_writes (set_lysti_backlight_brightness example_h 500 192 level64_state) ! 15
       = (engine3_load_path, Str ''9d8040400e80c000'')
   \<and> pattern (set_lysti_backlight_brightness example_h 0 192 level64_state)
       = ''9d8040c00000c000''
   \<and> pattern (set_lysti_backlight_brightness example_h 500 64 level64_state)
       = ''9d8040400000c000''"
  using
    lysti_fade_program [where s = level64_state and H = example_h and fadetime = 0
      and brightness = 192 and ?c6.0 = "CHR ''0''" and ?c7.0 = "CHR ''0''"
      and ?c8.0 = "CHR ''0''" and ?c9.0 = "CHR ''0''" and ?c10.0 = "CHR ''0''"
      and ?c11.0 = "CHR ''0''"]
    lysti_fade_program [where s = level64_state and H = example_h and fadetime = 500
      and brightness = 64 and ?c6.0 = "CHR ''0''" and ?c7.0 = "CHR ''0''"
      and ?c8.0 = "CHR ''0''" and ?c9.0 = "CHR ''0''" and ?c10.0 = "CHR ''0''"
      and ?c11.0 = "CHR ''0''"]
  by (simp add: level64_state_def lit_state_def example_state_def initial_state_def
      hex_hi_def hex_lo_def convert_def)

text \<open>
  Claim C7 as the spec states it fails in the rate: the spec's formula rounds the quotient
  7.97 to 8 (also when the first division is the integer division of the source), and the
  source cuts it to 7.
\<close>

theorem lysti_fade_program_counterexample:
  "sint (stepspeed_checked (stepspeed_computed 500 (192 - 64))) = 7
   \<and> spec_fade_step_rate 500 (192 - 64) = 8
   \<and> (2 * (500 * 1000 div 128) + 490) div 980 = (8 :: int)
   \<and> sint (stepspeed_checked (stepspeed_computed 500 (192 - 64)))
       \<noteq> spec_fade_step_rate 500 (192 - 64)"
  by (simp add: computed_examples stepspeed_checked_def word_sless_alt spec_fade_step_rate_def)

subsection \<open>At most one timer\<close>

text \<open>
  The hypothesis that the timer handle and GLib's sources agree holds of the initial state
  and is kept by the level trigger, by enabling and disabling, and by every event trigger:
  at most one timeout source is outstanding at any time, and it is the one the handle
  names.
\<close>

lemma timer_consistent_initial:
  "timer_consistent (initial_state H pid slide sys alarm level sub)"
  by (simp add: timer_consistent_def initial_state_def)

lemma timer_consistent_level:
  "timer_consistent (set_backlight_brightness H v s) = timer_consistent s"
  by (simp add: timer_consistent_def)

lemma timer_consistent_execute:
  "timer_consistent (execute_datapipe_key_backlight H v s) = timer_consistent s"
  by (simp add: timer_consistent_def)

lemma timer_consistent_cancel:
  "timer_consistent s \<Longrightarrow> timer_consistent (cancel_key_backlight_timeout s)"
  by (simp add: cancel_eq timer_consistent_def consistent_filter [unfolded timer_consistent_def])

lemma timer_consistent_setup:
  "timer_consistent s \<Longrightarrow> timer_consistent (setup_key_backlight_timeout s)"
  by (simp add: setup_eq timer_consistent_def consistent_filter [unfolded timer_consistent_def])

lemma timer_consistent_disable:
  "timer_consistent s \<Longrightarrow> timer_consistent (disable_key_backlight H s)"
  by (simp add: disable_key_backlight_def timer_consistent_execute timer_consistent_cancel)

lemma timer_consistent_enable:
  "timer_consistent s \<Longrightarrow> timer_consistent (enable_key_backlight H s)"
  by (simp add: enable_key_backlight_def Let_def timer_consistent_execute
      timer_consistent_cancel timer_consistent_setup)

lemma timer_consistent_policy:
  "timer_consistent s \<Longrightarrow> timer_consistent (enable_key_backlight_policy H s)"
  by (simp add: policy_cases timer_consistent_setup timer_consistent_enable)

lemma timer_consistent_old_display:
  "timer_consistent (s\<lparr>old_display_state := d\<rparr>) = timer_consistent s"
  by (simp add: timer_consistent_def)

lemma timer_consistent_triggers:
  "timer_consistent s \<Longrightarrow> timer_consistent (keyboard_slide_trigger H c s)"
  "timer_consistent s \<Longrightarrow> timer_consistent (display_state_trigger H d s)"
  "timer_consistent s \<Longrightarrow> timer_consistent (system_state_trigger H y s)"
  "timer_consistent s \<Longrightarrow> timer_consistent (device_inactive_trigger H b s)"
  by (simp_all add: keyboard_slide_trigger_def display_state_trigger_def
      system_state_trigger_def device_inactive_trigger_def Let_def
      timer_consistent_policy timer_consistent_disable timer_consistent_old_display
      split: display_state_t.split)

end
